theory Spec2Isabelle
  imports Complex_Main "HOL-Library.AList" "HOL-Library.Char_ord" "HOL-Library.List_Lexorder"
begin

section \<open>JavaScript values and arithmetic\<close>

text \<open>
  Amounts are JavaScript numbers in the source. They are modelled as exact reals: the
  model follows the decimal arithmetic the code writes down and leaves the binary
  rounding of IEEE doubles out. Times are milliseconds since the epoch (\<open>Date.now()\<close>).

  \<open>Math.round\<close> rounds to the nearest integer, a half going up; \<open>Math.floor\<close> is
  \<open>floor\<close>. The idiom \<open>Math.round(x * 100) / 100\<close> is \<open>round2\<close>.
\<close>

definition Math_round :: "real \<Rightarrow> int" where
  "Math_round x = \<lfloor>x + 1 / 2\<rfloor>"

definition round2 :: "real \<Rightarrow> real" where
  "round2 x = real_of_int (Math_round (x * 100)) / 100"

text \<open>
  \<open>x.toFixed(2)\<close> prints \<open>x\<close> with two decimals. The printed string is represented by
  the number of hundredths it shows (\<open>"2980.00"\<close> is \<open>298000\<close>).
\<close>

definition toFixed2 :: "real \<Rightarrow> int" where
  "toFixed2 x = (if x < 0 then - \<lfloor>(- x) * 100 + 1 / 2\<rfloor> else \<lfloor>x * 100 + 1 / 2\<rfloor>)"

text \<open>
  \<open>v || d\<close> on a number that may be missing: \<open>undefined\<close> and \<open>0\<close> are falsy and give
  the default.
\<close>

definition js_or :: "real option \<Rightarrow> real \<Rightarrow> real" where
  "js_or v d = (case v of None \<Rightarrow> d | Some x \<Rightarrow> if x = 0 then d else x)"

text \<open>Truthiness of an optional string and of an optional number (\<open>!value\<close>).\<close>

definition truthy_str :: "string option \<Rightarrow> bool" where
  "truthy_str v = (case v of None \<Rightarrow> False | Some s \<Rightarrow> s \<noteq> [])"

definition truthy_num :: "real option \<Rightarrow> bool" where
  "truthy_num v = (case v of None \<Rightarrow> False | Some x \<Rightarrow> x \<noteq> 0)"

text \<open>JSON values of the responses the handlers send.\<close>

datatype jval = JStr string | JNum real | JBool bool | JFixed2 int

text \<open>
  What a handler answers: \<open>res.status(c).json(body)\<close>, \<open>res.status(c).send(text)\<close>, or
  \<open>next(new AppError(message, statusCode))\<close>, which the error middleware turns into a
  response with that status and message.
\<close>

datatype response =
    Json nat "(string \<times> jval) list"
  | Send nat string
  | AppError string nat

text \<open>
  Exceptions that the modelled code can see: a MongoDB duplicate-key error (E11000), a
  Mongoose validation error, an axios error (the provider's \<open>respMsg\<close> and HTTP status
  when it answered, and the error's own message), and the errors of the built-ins used by
  the signature verifier.
\<close>

datatype error =
    MongoDuplicateKey
  | MongoValidation
  | AxiosError "string option" "nat option" string
  | TypeError
  | URIError
  | CryptoError

datatype log_level = LError | LWarn | LInfo

type_synonym log = "(log_level \<times> string) list"

section \<open>Data model (models/*.model.ts)\<close>

type_synonym object_id = string

datatype TransactionType = payment | refund | transfer | withdrawal

datatype TransactionStatus = pending | completed | failed | cancelled | refunded

text \<open>
  The transaction document (\<open>transaction.model.ts\<close>), with the fields the handlers write.
  \<open>meta_*\<close> are entries of the \<open>metadata\<close> map.
\<close>

record transaction =
  orderNo :: "string option"
  orderId :: "string option"
  t_business :: object_id
  t_type :: TransactionType
  t_amount :: real
  t_status :: TransactionStatus
  previousBalance :: real
  newBalance :: real
  charges_amount :: real
  completedAt :: "int option"
  failedAt :: "int option"
  updatedAt :: int
  meta_webhookId :: "string option"
  meta_netAmount :: "real option"

datatype chargeType = Percentage | Fixed

text \<open>\<open>charges.payment\<close> and \<open>charges.withdrawal\<close> of the business document.\<close>

record paymentCharges =
  percentage :: "real option"
  cap :: "real option"
  useDefault :: bool
  fixedPrice :: "real option"
  ctype :: chargeType

record tier =
  tier_min :: real
  tier_max :: real
  tier_fee :: real

record openTier =
  open_min :: real
  open_fee :: real

record withdrawalCharges =
  tier1 :: tier
  tier2 :: tier
  tier3 :: openTier
  w_useDefault :: bool

record business_charges =
  payment_cfg :: "paymentCharges option"
  withdrawal_cfg :: "withdrawalCharges option"

text \<open>
  The business document: \<open>balance\<close> (schema: \<open>min: [0, 'Amount cannot be negative']\<close>), the
  version key \<open>__v\<close>, the fee configuration and the merchant's webhook URL.
\<close>

record business =
  balance :: real
  version :: nat
  charges :: "business_charges option"
  webhookUrl :: "string option"

record accountNumber_doc =
  accountNumber :: string
  businessId :: object_id

record webhookActivity =
  wa_businessId :: "object_id option"
  wa_event :: string
  wa_orderNo :: "string option"
  wa_status :: string
  wa_error :: "string option"
  wa_retryCount :: nat

text \<open>
  The state the handlers work on: the four collections, and the two in-process maps of
  \<open>payment.controller.ts\<close> (\<open>paymentAttemptCache\<close>, keyed by business id and order id, and
  \<open>rateLimitCache\<close>, keyed by business id and IP address). The maps are association
  lists in insertion order, as a JavaScript \<open>Map\<close> iterates.
\<close>

record state =
  transactions :: "transaction list"
  businesses :: "object_id \<rightharpoonup> business"
  accountNumbers :: "accountNumber_doc list"
  webhookActivities :: "webhookActivity list"
  paymentAttemptCache :: "((object_id \<times> string) \<times> (int \<times> object_id)) list"
  rateLimitCache :: "((object_id \<times> string) \<times> (nat \<times> int)) list"

section \<open>Storage operations (Mongoose)\<close>

text \<open>
  \<open>Transaction.create\<close>. The schema validates \<open>amount >= 0\<close>. Two unique indexes of
  \<open>transaction.model.ts\<close> can reject the insert:
  \<^item> \<open>{ orderNo: 1 }\<close>, unique and sparse: among the documents that have an \<open>orderNo\<close>, no
    two share it;
  \<^item> \<open>{ business: 1, orderId: 1, type: 1 }\<close>, unique and sparse: a compound sparse index
    holds every document that has at least one of its keys, and \<open>business\<close> and \<open>type\<close>
    are required, so every document is in it, a missing \<open>orderId\<close> counting as null.
  (The third unique index, on \<open>metadata.transactionId\<close>, is sparse on a field that the
  handlers modelled here never write.) The collection is the list of its documents in
  insertion order; a document's \<open>_id\<close> is its position in the list, so the new document's
  \<open>_id\<close> is the length of the list before the insert.
\<close>

definition violatesUnique :: "transaction list \<Rightarrow> transaction \<Rightarrow> bool" where
  "violatesUnique txs t =
     ((orderNo t \<noteq> None \<and> list_ex (\<lambda>u. orderNo u = orderNo t) txs) \<or>
      list_ex (\<lambda>u. t_business u = t_business t \<and> orderId u = orderId t \<and> t_type u = t_type t) txs)"

definition Transaction_create :: "transaction list \<Rightarrow> transaction \<Rightarrow> error + (transaction list \<times> nat)" where
  "Transaction_create txs t =
     (if t_amount t < 0 then Inl MongoValidation
      else if violatesUnique txs t then Inl MongoDuplicateKey
      else Inr (txs @ [t], length txs))"

text \<open>\<open>Transaction.findByIdAndUpdate(id, update)\<close>: the document with that \<open>_id\<close> is updated.\<close>

definition findByIdAndUpdate :: "nat \<Rightarrow> (transaction \<Rightarrow> transaction) \<Rightarrow> transaction list \<Rightarrow> transaction list" where
  "findByIdAndUpdate i f txs = (if i < length txs then txs[i := f (txs ! i)] else txs)"

text \<open>
  \<open>business.save()\<close> after the balance was changed: Mongoose validates the modified path
  first (\<open>balance\<close>, \<open>min: 0\<close>) and rejects with a validation error, writing nothing, when
  the balance is negative.
\<close>

definition Business_save :: "(object_id \<rightharpoonup> business) \<Rightarrow> object_id \<Rightarrow> business \<Rightarrow> error + (object_id \<rightharpoonup> business)" where
  "Business_save bs i b = (if balance b < 0 then Inl MongoValidation else Inr (bs(i \<mapsto> b)))"

section \<open>Fee computation\<close>

text \<open>
  Steps 8 of \<open>receivePayment\<close> (payment.controller.ts, lines 158-196): the charge, the
  percentage recorded with it and the charge type. The result is rounded to two decimals
  on every branch.
\<close>

definition receivePayment_charges :: "business \<Rightarrow> real \<Rightarrow> real \<times> real \<times> chargeType" where
  "receivePayment_charges b amountInStandard =
     (case (case charges b of None \<Rightarrow> None | Some c \<Rightarrow> payment_cfg c) of
        None \<Rightarrow> (round2 (min (amountInStandard * (3 / 2) / 100) 500), 3 / 2, Percentage)
      | Some businessCharges \<Rightarrow>
          if \<not> useDefault businessCharges then
            (if ctype businessCharges = Fixed then
               (round2 (js_or (fixedPrice businessCharges) 0), 0, Fixed)
             else
               (let chargePercentage = js_or (percentage businessCharges) (3 / 2);
                    cp = js_or (cap businessCharges) 500
                in (round2 (min (amountInStandard * chargePercentage / 100) cp), chargePercentage, Percentage)))
          else
            (let chargePercentage = js_or (percentage businessCharges) (3 / 2);
                 cp = js_or (cap businessCharges) 500
             in (round2 (min (amountInStandard * chargePercentage / 100) cp), chargePercentage, Percentage)))"

text \<open>
  \<open>calculateCharges\<close> of the webhook controller (otp.controller.ts, lines 203-244), with
  \<open>DEFAULT_CHARGE_PERCENTAGE = 1\<close> and \<open>DEFAULT_CHARGE_CAP = 500\<close>. It returns
  \<open>(chargeAmount, netAmount)\<close>; a fixed charge is not rounded.
\<close>

definition DEFAULT_CHARGE_PERCENTAGE :: real where
  "DEFAULT_CHARGE_PERCENTAGE = 1"

definition DEFAULT_CHARGE_CAP :: real where
  "DEFAULT_CHARGE_CAP = 500"

definition calculateCharges :: "real \<Rightarrow> business \<Rightarrow> real \<times> real" where
  "calculateCharges amount b =
     (let chargeAmount =
        (case (case charges b of None \<Rightarrow> None | Some c \<Rightarrow> payment_cfg c) of
           None \<Rightarrow> round2 (min (amount * DEFAULT_CHARGE_PERCENTAGE / 100) DEFAULT_CHARGE_CAP)
         | Some businessCharges \<Rightarrow>
             if \<not> useDefault businessCharges then
               (if ctype businessCharges = Fixed then js_or (fixedPrice businessCharges) 0
                else
                  (let pct = js_or (percentage businessCharges) DEFAULT_CHARGE_PERCENTAGE;
                       cp = js_or (cap businessCharges) DEFAULT_CHARGE_CAP
                   in round2 (min (amount * pct / 100) cp)))
             else
               (let pct = js_or (percentage businessCharges) DEFAULT_CHARGE_PERCENTAGE;
                    cp = js_or (cap businessCharges) DEFAULT_CHARGE_CAP
                in round2 (min (amount * pct / 100) cp)))
      in (chargeAmount, amount - chargeAmount))"

text \<open>
  Step 9 of \<open>initiatePayment\<close> (payment.controller.ts, lines 736-768): the withdrawal fee
  from three tiers, the business's own when it has them and does not defer to the
  default, the default tiers otherwise. No tier matching leaves the initial fee \<open>0\<close>.
\<close>

definition defaultTier1 :: tier where
  "defaultTier1 = \<lparr>tier_min = 0, tier_max = 5000, tier_fee = 20\<rparr>"

definition defaultTier2 :: tier where
  "defaultTier2 = \<lparr>tier_min = 500001 / 100, tier_max = 50000, tier_fee = 40\<rparr>"

definition defaultTier3 :: openTier where
  "defaultTier3 = \<lparr>open_min = 5000001 / 100, open_fee = 65\<rparr>"

definition tierFee :: "tier \<Rightarrow> tier \<Rightarrow> openTier \<Rightarrow> real \<Rightarrow> real" where
  "tierFee t1 t2 t3 amount =
     (if amount \<ge> tier_min t1 \<and> amount \<le> tier_max t1 then tier_fee t1
      else if amount \<ge> tier_min t2 \<and> amount \<le> tier_max t2 then tier_fee t2
      else if amount \<ge> open_min t3 then open_fee t3
      else 0)"

definition customTiers :: "business \<Rightarrow> withdrawalCharges option" where
  "customTiers b =
     (case charges b of
        None \<Rightarrow> None
      | Some c \<Rightarrow>
          (case withdrawal_cfg c of
             None \<Rightarrow> None
           | Some w \<Rightarrow> if \<not> w_useDefault w then Some w else None))"

definition withdrawalFee :: "business \<Rightarrow> real \<Rightarrow> real" where
  "withdrawalFee b amount =
     (case customTiers b of
        Some w \<Rightarrow> tierFee (tier1 w) (tier2 w) (tier3 w) amount
      | None \<Rightarrow> tierFee defaultTier1 defaultTier2 defaultTier3 amount)"

section \<open>The inbound credit webhook: receivePayment (payment.controller.ts, lines 19-294)\<close>

text \<open>
  The fields of the webhook body that the handlers read, and the request around it.
  \<open>forwarded_ip\<close> is \<open>req.headers['x-forwarded-for'] || req.headers['x-real-ip']\<close>.
\<close>

record webhook_body =
  wb_orderNo :: "string option"
  wb_orderAmount :: "real option"
  wb_orderStatus :: "int option"
  wb_virtualAccountNo :: "string option"

record webhook_request =
  x_webhook_id :: "string option"
  forwarded_ip :: "string option"
  wbody :: webhook_body

text \<open>
  Steps 8 to 12 and the \<open>catch\<close> block. \<open>b\<close> is the business document returned by
  \<open>findOneAndUpdate\<close> and \<open>s\<close> the state after it. The balance is changed on the document
  in memory, the transaction is created, and only then the document is saved. When
  \<open>Transaction.create\<close> throws, \<open>transaction\<close> is still null and the catch block only logs;
  when \<open>business.save()\<close> throws, the catch block marks the created transaction as failed.
  Log messages are shortened to their fixed part.
\<close>

definition receivePayment_credit ::
  "state \<Rightarrow> object_id \<Rightarrow> business \<Rightarrow> string \<Rightarrow> real \<Rightarrow> string \<Rightarrow> int \<Rightarrow> state \<times> log" where
  "receivePayment_credit s bid b ordNo orderAmount webhookId now =
     (let amountInStandard = orderAmount / 100;
          chargeAmount = fst (receivePayment_charges b amountInStandard);
          netAmountAfterCharges = amountInStandard - chargeAmount;
          previousBal = balance b;
          b' = b\<lparr>balance := balance b + netAmountAfterCharges\<rparr>
      in case Transaction_create (transactions s)
                \<lparr>orderNo = Some ordNo, orderId = None, t_business = bid,
                 t_type = payment, t_amount = amountInStandard, t_status = completed,
                 previousBalance = previousBal, newBalance = balance b',
                 charges_amount = chargeAmount, completedAt = Some now, failedAt = None,
                 updatedAt = now, meta_webhookId = Some webhookId,
                 meta_netAmount = Some netAmountAfterCharges\<rparr> of
           Inl e \<Rightarrow> (s, [(LError, ''Webhook processing error'')])
         | Inr (txs, transaction_id) \<Rightarrow>
             (case Business_save (businesses s) bid b' of
                Inl e \<Rightarrow>
                  (s\<lparr>transactions :=
                       findByIdAndUpdate transaction_id
                         (\<lambda>t. t\<lparr>t_status := failed, failedAt := Some now, updatedAt := now\<rparr>) txs\<rparr>,
                   [(LError, ''Webhook processing error''), (LInfo, ''Marked transaction as failed'')])
              | Inr bs \<Rightarrow>
                  (s\<lparr>transactions := txs, businesses := bs\<rparr>,
                   [(LInfo, ''Payment processed successfully'')])))"

text \<open>
  Steps 3 to 7, run after the response was sent: the required fields, the amount, the two
  idempotency look-ups (the second only warns and goes on), the virtual account, the
  business, and the version increment.
\<close>

definition receivePayment_async :: "state \<Rightarrow> webhook_request \<Rightarrow> string \<Rightarrow> int \<Rightarrow> state \<times> log" where
  "receivePayment_async s req webhookId now =
     (let bd = wbody req in
      if \<not> truthy_str (wb_orderNo bd) \<or> \<not> truthy_num (wb_orderAmount bd) \<or>
         \<not> truthy_str (wb_virtualAccountNo bd)
      then (s, [(LError, ''Missing required fields'')])
      else
        (case (wb_orderNo bd, wb_orderAmount bd, wb_virtualAccountNo bd) of
           (Some ordNo, Some orderAmount, Some virtualAccountNo) \<Rightarrow>
             if orderAmount \<le> 0 then (s, [(LError, ''Invalid order amount'')])
             else if list_ex (\<lambda>t. orderNo t = Some ordNo \<and> meta_webhookId t = Some webhookId)
                       (transactions s)
             then (s, [(LWarn, ''Already processed (Duplicate webhook)'')])
             else
               (let lg = (if list_ex (\<lambda>t. orderNo t = Some ordNo) (transactions s)
                          then [(LWarn, ''Transaction with orderNo already exists with different webhookId'')]
                          else [])
                in case find (\<lambda>a. accountNumber a = virtualAccountNo) (accountNumbers s) of
                     None \<Rightarrow> (s, lg @ [(LError, ''Account not found'')])
                   | Some account \<Rightarrow>
                       (case businesses s (businessId account) of
                          None \<Rightarrow> (s, lg @ [(LError, ''Business not found for account'')])
                        | Some b0 \<Rightarrow>
                            (let b = b0\<lparr>version := version b0 + 1\<rparr>;
                                 s1 = s\<lparr>businesses := (businesses s)(businessId account \<mapsto> b)\<rparr>;
                                 r = receivePayment_credit s1 (businessId account) b ordNo
                                       orderAmount webhookId now
                             in (fst r, lg @ snd r))))
         | _ \<Rightarrow> (s, [(LError, ''Missing required fields'')])))"

text \<open>
  The handler. \<open>verify\<close> is the imported \<open>verifySignature\<close> applied to \<open>req.body\<close> (its own
  model is in the last section); \<open>rnd\<close> is the identifier generated from \<open>Date.now()\<close> and
  \<open>Math.random()\<close> when the request has no \<open>x-webhook-id\<close> header. The result is the
  response, the state after the asynchronous part has run, and what was logged. Requests
  are processed one after the other.
\<close>

definition receivePayment ::
  "(webhook_body \<Rightarrow> bool) \<Rightarrow> state \<Rightarrow> webhook_request \<Rightarrow> string \<Rightarrow> int \<Rightarrow> response \<times> state \<times> log" where
  "receivePayment verify s req rnd now =
     (let webhookId = (case x_webhook_id req of None \<Rightarrow> rnd | Some h \<Rightarrow> if h = [] then rnd else h) in
      if \<not> verify (wbody req) then
        (Json 200 [(''status'', JStr ''error''), (''message'', JStr ''Invalid signature''),
                   (''webhookId'', JStr webhookId)],
         s, [(LError, ''Invalid webhook signature'')])
      else
        (let r = receivePayment_async s req webhookId now
         in (Json 200 [(''status'', JStr ''success''),
                       (''message'', JStr ''Webhook received, processing payment''),
                       (''webhookId'', JStr webhookId)],
             fst r, snd r)))"


section \<open>The withdrawal: initiatePayment (payment.controller.ts, lines 620-948)\<close>

record withdraw_request =
  wr_amount :: "real option"
  wr_businessId :: "object_id option"
  wr_orderId :: "string option"
  wr_otp :: "string option"
  wr_ip :: string

text \<open>
  The payout request sent to the provider (\<open>amount\<close> in minor units) and what comes back:
  axios throws, or the provider answers with \<open>respCode\<close>, \<open>respMsg\<close> and \<open>data\<close>.
\<close>

record payout_request =
  pr_orderId :: string
  pr_amount :: int
  pr_currency :: string

record payout_data =
  pd_orderNo :: string
  pd_orderStatus :: int

datatype payout_reply =
    PayoutThrows error
  | PayoutAnswer string "string option" payout_data

definition MAX_ATTEMPTS :: nat where
  "MAX_ATTEMPTS = 5"

definition RATE_LIMIT_WINDOW :: int where
  "RATE_LIMIT_WINDOW = 5 * 60 * 1000"

definition retryTimeWindow :: int where
  "retryTimeWindow = 2 * 60 * 1000"

definition CACHE_TTL :: int where
  "CACHE_TTL = 10 * 60 * 1000"

definition validCurrencies :: "string list" where
  "validCurrencies = [''NGN'', ''GHS'', ''TZS'', ''KES'']"

text \<open>
  Step 2, the rate limit per business and IP address: \<open>None\<close> when the limit is exceeded,
  the state with the counter updated otherwise.
\<close>

definition rateLimit :: "state \<Rightarrow> object_id \<times> string \<Rightarrow> int \<Rightarrow> state option" where
  "rateLimit s rateKey now =
     (let rateData = (case map_of (rateLimitCache s) rateKey of
                        None \<Rightarrow> (0, now + RATE_LIMIT_WINDOW)
                      | Some d \<Rightarrow> d)
      in if now > snd rateData then
           Some (s\<lparr>rateLimitCache := AList.update rateKey (1, now + RATE_LIMIT_WINDOW) (rateLimitCache s)\<rparr>)
         else if fst rateData \<ge> MAX_ATTEMPTS then None
         else Some (s\<lparr>rateLimitCache :=
                        AList.update rateKey (fst rateData + 1, snd rateData) (rateLimitCache s)\<rparr>))"

text \<open>Step 3, an attempt with the same business and order id in the last five minutes.\<close>

definition recentAttempt :: "((object_id \<times> string) \<times> (int \<times> object_id)) list \<Rightarrow> object_id \<times> string \<Rightarrow> int \<Rightarrow> bool" where
  "recentAttempt cache uniqueRequestId now =
     (case map_of cache uniqueRequestId of
        None \<Rightarrow> False
      | Some cachedAttempt \<Rightarrow> now - fst cachedAttempt < 5 * 60 * 1000)"

text \<open>
  Step 4 (lines 667-705), the look-up of a withdrawal with the same order id and business:
  a completed one is answered from the stored record, a failed one blocks for two
  minutes after \<open>failedAt || updatedAt\<close>, any other status blocks.
\<close>

datatype guard = Proceed | Reply response

definition existingGuard :: "transaction list \<Rightarrow> object_id \<Rightarrow> string \<Rightarrow> int \<Rightarrow> guard" where
  "existingGuard txs bid ordId now =
     (case find (\<lambda>t. orderId t = Some ordId \<and> t_business t = bid \<and> t_type t = withdrawal) txs of
        None \<Rightarrow> Proceed
      | Some existingTransaction \<Rightarrow>
          if t_status existingTransaction = completed then
            Reply (Json 200
              [(''status'', JStr ''success''),
               (''orderNo'', JStr (case orderNo existingTransaction of None \<Rightarrow> [] | Some n \<Rightarrow> n)),
               (''amount'', JNum (t_amount existingTransaction * 100)),
               (''isSuccessful'', JBool True),
               (''formattedAmount'', JFixed2 (toFixed2 (t_amount existingTransaction))),
               (''message'', JStr ''Transaction already processed successfully''),
               (''idempotent'', JBool True)])
          else if t_status existingTransaction = failed then
            (let failedAt' = (case failedAt existingTransaction of
                                None \<Rightarrow> updatedAt existingTransaction
                              | Some f \<Rightarrow> f)
             in if now - failedAt' < retryTimeWindow
                then Reply (AppError ''Please wait before retrying this failed transaction'' 400)
                else Proceed)
          else Reply (AppError ''This withdrawal request is currently being processed'' 400))"

text \<open>
  The message and status the inner \<open>catch\<close> derives from an error:
  \<open>error.response?.data?.respMsg || error.message || 'Payment initiation failed'\<close> and
  \<open>error.response?.status || 500\<close>.
\<close>

definition str_or :: "string option \<Rightarrow> string \<Rightarrow> string" where
  "str_or v d = (case v of None \<Rightarrow> d | Some x \<Rightarrow> if x = [] then d else x)"

fun error_message :: "error \<Rightarrow> string" where
  "error_message (AxiosError respMsg st msg) = str_or respMsg (str_or (Some msg) ''Payment initiation failed'')"
| "error_message MongoDuplicateKey = ''E11000 duplicate key error''"
| "error_message MongoValidation = ''Validation failed''"
| "error_message TypeError = ''TypeError''"
| "error_message URIError = ''URI malformed''"
| "error_message CryptoError = ''crypto error''"

fun error_status :: "error \<Rightarrow> nat" where
  "error_status (AxiosError respMsg st msg) = (case st of None \<Rightarrow> 500 | Some c \<Rightarrow> if c = 0 then 500 else c)"
| "error_status e = 500"

text \<open>
  Step 20, the inner \<open>catch\<close>: a failed transaction is recorded with the balance of the
  document in memory as both balances. If that insert throws too, the outer \<open>catch\<close>
  answers 409.
\<close>

definition initiatePayment_failed ::
  "state \<Rightarrow> object_id \<Rightarrow> business \<Rightarrow> string \<Rightarrow> real \<Rightarrow> real \<Rightarrow> int \<Rightarrow> error \<Rightarrow> response \<times> state" where
  "initiatePayment_failed s bid b ordId amount fee now e =
     (case Transaction_create (transactions s)
             \<lparr>orderNo = None, orderId = Some ordId, t_business = bid,
              t_type = withdrawal, t_amount = amount, t_status = failed,
              previousBalance = balance b, newBalance = balance b,
              charges_amount = fee, completedAt = None, failedAt = Some now,
              updatedAt = now, meta_webhookId = None, meta_netAmount = None\<rparr> of
        Inl e2 \<Rightarrow>
          (AppError ''Unable to process withdrawal due to concurrent operations. Please try again.'' 409, s)
      | Inr (txs, doc) \<Rightarrow> (AppError (error_message e) (error_status e), s\<lparr>transactions := txs\<rparr>))"

text \<open>
  Steps 8 to 18. \<open>b\<close> is the business document returned by \<open>findOneAndUpdate\<close>, \<open>s\<close> the
  state after it, \<open>payout\<close> the provider. The third component of the result is the request
  that was sent to the provider, if one was sent.
\<close>

definition initiatePayment_payout ::
  "(payout_request \<Rightarrow> payout_reply) \<Rightarrow> state \<Rightarrow> object_id \<Rightarrow> business \<Rightarrow> string \<Rightarrow> real \<Rightarrow> int \<Rightarrow>
   response \<times> state \<times> payout_request option" where
  "initiatePayment_payout payout s bid b ordId amount now =
     (if amount < 100 then (AppError ''Minimum amount to withdraw is N100'' 400, s, None)
      else
        (let fee = withdrawalFee b amount;
             amountAfterFee = amount - fee
         in if balance b < amount then (AppError ''Insufficient balance for this withdrawal'' 400, s, None)
            else
              (let s1 = s\<lparr>paymentAttemptCache :=
                           filter (\<lambda>kv. \<not> (now - fst (snd kv) > CACHE_TTL))
                             (AList.update (bid, ordId) (now, bid) (paymentAttemptCache s))\<rparr>;
                   amountInCents = \<lfloor>amountAfterFee * 100\<rfloor>;
                   requestBody = \<lparr>pr_orderId = ordId, pr_amount = amountInCents, pr_currency = ''NGN''\<rparr>
               in case payout requestBody of
                    PayoutThrows e \<Rightarrow>
                      (let r = initiatePayment_failed s1 bid b ordId amount fee now e
                       in (fst r, snd r, Some requestBody))
                  | PayoutAnswer respCode respMsg dat \<Rightarrow>
                      if respCode \<noteq> ''00000000'' then
                        (AppError (str_or respMsg ''Payment initiation failed'') 400, s1, Some requestBody)
                      else
                        (let previousBal = balance b;
                             b' = b\<lparr>balance := balance b - amount\<rparr>
                         in case Business_save (businesses s1) bid b' of
                              Inl e \<Rightarrow>
                                (let r = initiatePayment_failed s1 bid b' ordId amount fee now e
                                 in (fst r, snd r, Some requestBody))
                            | Inr bs \<Rightarrow>
                                (let s2 = s1\<lparr>businesses := bs\<rparr>;
                                     st = (if pd_orderStatus dat = 2 then completed else pending)
                                 in case Transaction_create (transactions s2)
                                           \<lparr>orderNo = Some (pd_orderNo dat),
                                            orderId = Some ordId, t_business = bid,
                                            t_type = withdrawal, t_amount = amount, t_status = st,
                                            previousBalance = previousBal, newBalance = balance b',
                                            charges_amount = fee,
                                            completedAt = (if st = completed then Some now else None),
                                            failedAt = None, updatedAt = now,
                                            meta_webhookId = None, meta_netAmount = None\<rparr> of
                                      Inl e \<Rightarrow>
                                        (let r = initiatePayment_failed s2 bid b' ordId amount fee now e
                                         in (fst r, snd r, Some requestBody))
                                    | Inr (txs, doc) \<Rightarrow>
                                        (Json 200
                                           [(''status'', JStr ''success''),
                                            (''orderNo'', JStr (pd_orderNo dat)),
                                            (''orderStatus'', JNum (real_of_int (pd_orderStatus dat))),
                                            (''isSuccessful'', JBool (pd_orderStatus dat = 2)),
                                            (''formattedAmount'', JFixed2 (toFixed2 amountAfterFee)),
                                            (''originalAmount'', JFixed2 (toFixed2 amount)),
                                            (''fee'', JFixed2 (toFixed2 fee))],
                                         s2\<lparr>transactions := txs,
                                            paymentAttemptCache :=
                                              AList.delete (bid, ordId) (paymentAttemptCache s2)\<rparr>,
                                         Some requestBody))))))"

text \<open>
  The handler: steps 1 to 6, then the rest. The currency is the constant \<open>'NGN'\<close>, so its
  validation (step 5) always passes. Messages with interpolated field names are
  shortened to their fixed part.
\<close>

definition initiatePayment ::
  "(payout_request \<Rightarrow> payout_reply) \<Rightarrow> state \<Rightarrow> withdraw_request \<Rightarrow> int \<Rightarrow>
   response \<times> state \<times> payout_request option" where
  "initiatePayment payout s req now =
     (if \<not> truthy_num (wr_amount req) \<or> \<not> truthy_str (wr_businessId req) \<or>
         \<not> truthy_str (wr_orderId req) \<or> \<not> truthy_str (wr_otp req)
      then (AppError ''Missing required fields'' 400, s, None)
      else
        (case (wr_amount req, wr_businessId req, wr_orderId req) of
           (Some amount, Some bid, Some ordId) \<Rightarrow>
             (case rateLimit s (bid, wr_ip req) now of
                None \<Rightarrow> (AppError ''Too many withdrawal attempts. Please try again later.'' 429, s, None)
              | Some s1 \<Rightarrow>
                  if recentAttempt (paymentAttemptCache s1) (bid, ordId) now then
                    (AppError ''Duplicate transaction detected. Please wait before retrying.'' 400, s1, None)
                  else
                    (case existingGuard (transactions s1) bid ordId now of
                       Reply r \<Rightarrow> (r, s1, None)
                     | Proceed \<Rightarrow>
                         if ''NGN'' \<notin> set validCurrencies then
                           (AppError ''Invalid currency'' 400, s1, None)
                         else
                           (case businesses s1 bid of
                              None \<Rightarrow> (AppError ''Business not found'' 404, s1, None)
                            | Some b0 \<Rightarrow>
                                (let b = b0\<lparr>version := version b0 + 1\<rparr>;
                                     s2 = s1\<lparr>businesses := (businesses s1)(bid \<mapsto> b)\<rparr>
                                 in initiatePayment_payout payout s2 bid b ordId amount now))))
         | _ \<Rightarrow> (AppError ''Missing required fields'' 400, s, None)))"

section \<open>The payment notification webhook (webhook controller: otp.controller.ts, lines 172-575)\<close>

definition PAYVESSEL_IP :: string where
  "PAYVESSEL_IP = ''47.254.157.75''"

definition validateIpAddress :: "string option \<Rightarrow> bool" where
  "validateIpAddress ip = (ip = Some PAYVESSEL_IP)"

text \<open>What a helper throws: an \<open>AppError\<close> with its status code, or another error.\<close>

datatype thrown = ThrownAppError string nat | ThrownError error

text \<open>
  \<open>createTransactionRecord\<close>: the balance is changed and saved first, then the transaction
  is created. The state is returned also when the function throws, because what was
  written before stays written.
\<close>

definition createTransactionRecord ::
  "state \<Rightarrow> webhook_body \<Rightarrow> object_id \<Rightarrow> business \<Rightarrow> real \<Rightarrow> real \<Rightarrow> real \<Rightarrow> int \<Rightarrow>
   (thrown + transaction \<times> business) \<times> state" where
  "createTransactionRecord s paymentData bid b amountInStandard chargeAmount netAmountAfterCharges now =
     (let previousBal = balance b;
          b' = b\<lparr>balance := balance b + netAmountAfterCharges\<rparr>
      in case Business_save (businesses s) bid b' of
           Inl e \<Rightarrow> (Inl (ThrownError e), s)
         | Inr bs \<Rightarrow>
             (let s1 = s\<lparr>businesses := bs\<rparr>;
                  st = (if wb_orderStatus paymentData = Some 1 then completed else failed)
              in case Transaction_create (transactions s1)
                        \<lparr>orderNo = wb_orderNo paymentData,
                         orderId = wb_orderNo paymentData, t_business = bid,
                         t_type = payment, t_amount = amountInStandard, t_status = st,
                         previousBalance = previousBal, newBalance = balance b',
                         charges_amount = chargeAmount, completedAt = Some now,
                         failedAt = (if st = failed then Some now else None),
                         updatedAt = now, meta_webhookId = None,
                         meta_netAmount = Some netAmountAfterCharges\<rparr> of
                   Inl e \<Rightarrow> (Inl (ThrownError e), s1)
                 | Inr (txs, transaction_id) \<Rightarrow>
                     (Inr (txs ! transaction_id, b'), s1\<lparr>transactions := txs\<rparr>)))"

text \<open>
  \<open>processPayment\<close> (lines 408-477). A body without an amount makes the arithmetic NaN,
  which the save rejects.
\<close>

definition processPayment ::
  "state \<Rightarrow> webhook_body \<Rightarrow> int \<Rightarrow> (thrown + transaction \<times> object_id \<times> business) \<times> state" where
  "processPayment s paymentData now =
     (if list_ex (\<lambda>t. orderNo t = wb_orderNo paymentData) (transactions s) then
        (Inl (ThrownAppError ''Payment already processed'' 200), s)
      else
        (case find (\<lambda>a. Some (accountNumber a) = wb_virtualAccountNo paymentData) (accountNumbers s) of
           None \<Rightarrow> (Inl (ThrownAppError ''Account not found for virtual account'' 400), s)
         | Some account \<Rightarrow>
             (case businesses s (businessId account) of
                None \<Rightarrow> (Inl (ThrownAppError ''Business not found for account'' 400), s)
              | Some b \<Rightarrow>
                  if wb_orderStatus paymentData \<noteq> Some 1 then
                    (Inl (ThrownAppError ''Order not successful'' 400), s)
                  else
                    (case wb_orderAmount paymentData of
                       None \<Rightarrow> (Inl (ThrownError MongoValidation), s)
                     | Some orderAmount \<Rightarrow>
                         (let amountInStandard = orderAmount / 100;
                              c = calculateCharges amountInStandard b;
                              r = createTransactionRecord s paymentData (businessId account) b
                                    amountInStandard (fst c) (snd c) now
                          in case fst r of
                               Inl e \<Rightarrow> (Inl e, snd r)
                             | Inr (tx, b') \<Rightarrow> (Inr (tx, businessId account, b'), snd r))))))"

text \<open>
  \<open>notifyBusiness\<close>: one POST to the merchant's webhook URL, if it has one, and a
  \<open>WebhookActivity\<close> entry with the outcome. \<open>post url\<close> says whether the POST succeeded.
\<close>

definition logActivity ::
  "state \<Rightarrow> object_id option \<Rightarrow> string \<Rightarrow> string option \<Rightarrow> string \<Rightarrow> string option \<Rightarrow> nat \<Rightarrow> state" where
  "logActivity s bid ev ordNo st err retryCount =
     s\<lparr>webhookActivities := webhookActivities s @
         [\<lparr>wa_businessId = bid, wa_event = ev, wa_orderNo = ordNo, wa_status = st,
           wa_error = err, wa_retryCount = retryCount\<rparr>]\<rparr>"

definition notifyBusiness :: "(string \<Rightarrow> bool) \<Rightarrow> state \<Rightarrow> object_id \<Rightarrow> business \<Rightarrow> string option \<Rightarrow> state" where
  "notifyBusiness post s bid b ordNo =
     (case webhookUrl b of
        None \<Rightarrow> s
      | Some url \<Rightarrow>
          if url = [] then s
          else if post url then logActivity s (Some bid) ''payment.received'' ordNo ''success'' None 0
          else logActivity s (Some bid) ''payment.received'' ordNo ''failed''
                 (Some ''Error sending webhook notification'') 0)"

text \<open>
  \<open>handlePaymentNotification\<close> (lines 480-575). Every request is logged as a
  \<open>WebhookActivity\<close>; the source IP is checked; an \<open>AppError\<close> thrown by \<open>processPayment\<close>
  is answered with its own status code, any other error with 500.
\<close>

definition handlePaymentNotification ::
  "(string \<Rightarrow> bool) \<Rightarrow> state \<Rightarrow> webhook_request \<Rightarrow> int \<Rightarrow> response \<times> state" where
  "handlePaymentNotification post s req now =
     (let bd = wbody req;
          existingActivity =
            find (\<lambda>a. wa_event a = ''payment.notification'' \<and> wa_orderNo a = wb_orderNo bd)
              (rev (webhookActivities s));
          retryCount = (case existingActivity of None \<Rightarrow> 0 | Some a \<Rightarrow> wa_retryCount a + 1);
          s1 = logActivity s None ''payment.notification'' (wb_orderNo bd) ''pending'' None retryCount
      in if \<not> validateIpAddress (forwarded_ip req) then
           (Send 401 ''Invalid IP address'',
            logActivity s1 None ''payment.notification'' (wb_orderNo bd) ''failed''
              (Some ''Invalid IP address'') retryCount)
         else
           (let r = processPayment s1 bd now
            in case fst r of
                 Inr (tx, bid, b) \<Rightarrow>
                   (Send 200 ''Payment processed successfully'',
                    logActivity (notifyBusiness post (snd r) bid b (wb_orderNo bd)) (Some bid)
                      ''payment.notification'' (wb_orderNo bd) ''success'' None retryCount)
               | Inl (ThrownAppError msg code) \<Rightarrow>
                   (Send code msg,
                    logActivity (snd r) None ''payment.notification'' (wb_orderNo bd) ''failed''
                      (Some msg) retryCount)
               | Inl (ThrownError e) \<Rightarrow>
                   (Send 500 ''Error processing payment notification'',
                    logActivity (snd r) None ''payment.notification'' (wb_orderNo bd) ''failed''
                      (Some (error_message e)) retryCount)))"

section \<open>The signature verifier (utils/verifySignature.ts)\<close>

text \<open>
  The notification is any JavaScript value. The built-ins the verifier calls are
  parameters, each of which may throw: \<open>decodeURIComponent\<close> (applied to the signature,
  which it first converts to a string), the string conversion of a template literal, the
  MD5 digest in upper-case hex, and the RSA-SHA1 verification of the digest against the
  decoded signature under the public key that the source hard-codes.
\<close>

datatype jsv =
    JUndefined
  | JNull
  | JBoolean bool
  | JNumber real
  | JString string
  | JObject "(string \<times> jsv) list"

record builtins =
  decodeURIComponent :: "jsv \<Rightarrow> error + string"
  ToString :: "jsv \<Rightarrow> error + string"
  md5_hex_upper :: "string \<Rightarrow> error + string"
  rsa_sha1_verify :: "string \<Rightarrow> string \<Rightarrow> error + bool"

definition falsy :: "jsv \<Rightarrow> bool" where
  "falsy v =
     (case v of
        JUndefined \<Rightarrow> True
      | JNull \<Rightarrow> True
      | JBoolean b \<Rightarrow> \<not> b
      | JNumber x \<Rightarrow> x = 0
      | JString str \<Rightarrow> str = []
      | JObject kvs \<Rightarrow> False)"

text \<open>
  \<open>const { sign, ...params } = notification\<close>: a TypeError on \<open>null\<close> and \<open>undefined\<close>; on
  an object the \<open>sign\<close> property and the other properties; on any other primitive
  \<open>sign\<close> is \<open>undefined\<close> (and the verifier returns before it reads \<open>params\<close>).
\<close>

definition destructure :: "jsv \<Rightarrow> error + jsv \<times> (string \<times> jsv) list" where
  "destructure notification =
     (case notification of
        JUndefined \<Rightarrow> Inl TypeError
      | JNull \<Rightarrow> Inl TypeError
      | JObject kvs \<Rightarrow>
          Inr ((case map_of kvs ''sign'' of None \<Rightarrow> JUndefined | Some v \<Rightarrow> v),
               filter (\<lambda>kv. fst kv \<noteq> ''sign'') kvs)
      | _ \<Rightarrow> Inr (JUndefined, []))"

fun render :: "builtins \<Rightarrow> (string \<times> jsv) list \<Rightarrow> string list \<Rightarrow> error + string list" where
  "render env params [] = Inr []"
| "render env params (key # keys) =
     (case ToString env (case map_of params key of None \<Rightarrow> JUndefined | Some v \<Rightarrow> v) of
        Inl e \<Rightarrow> Inl e
      | Inr str \<Rightarrow>
          (case render env params keys of
             Inl e \<Rightarrow> Inl e
           | Inr rest \<Rightarrow> Inr ((key @ ''='' @ str) # rest)))"

fun join :: "string \<Rightarrow> string list \<Rightarrow> string" where
  "join sep [] = []"
| "join sep [x] = x"
| "join sep (x # y # zs) = x @ sep @ join sep (y # zs)"

text \<open>The body of the \<open>try\<close> block: \<open>Inl\<close> is an exception thrown inside it.\<close>

definition verifySignature_try :: "builtins \<Rightarrow> jsv \<Rightarrow> error + bool" where
  "verifySignature_try env notification =
     (case destructure notification of
        Inl e \<Rightarrow> Inl e
      | Inr (sign, params) \<Rightarrow>
          if falsy sign then Inr False
          else
            (case decodeURIComponent env sign of
               Inl e \<Rightarrow> Inl e
             | Inr decodedSign \<Rightarrow>
                 (let keys = sort (map fst (filter (\<lambda>kv. snd kv \<noteq> JNull \<and> snd kv \<noteq> JUndefined \<and>
                                                           snd kv \<noteq> JString []) params))
                  in case render env params keys of
                       Inl e \<Rightarrow> Inl e
                     | Inr parts \<Rightarrow>
                         (case md5_hex_upper env (join ''&'' parts) of
                            Inl e \<Rightarrow> Inl e
                          | Inr md5Str \<Rightarrow> rsa_sha1_verify env md5Str decodedSign))))"

text \<open>
  \<open>try { ... } catch (error) { ... }\<close>: the handler runs on an exception of the body. The
  function's result is \<open>Inr\<close> of what it returns, or \<open>Inl\<close> of an exception that leaves it.
\<close>

definition try_catch :: "error + 'a \<Rightarrow> (error \<Rightarrow> error + 'a) \<Rightarrow> error + 'a" where
  "try_catch body handler = (case body of Inl e \<Rightarrow> handler e | Inr v \<Rightarrow> Inr v)"

definition verifySignature :: "builtins \<Rightarrow> jsv \<Rightarrow> error + bool" where
  "verifySignature env notification =
     try_catch (verifySignature_try env notification) (\<lambda>e. Inr False)"

section \<open>Notions used in the statements\<close>

text \<open>The stored balance of a business, if the business exists.\<close>

definition balanceOf :: "state \<Rightarrow> object_id \<Rightarrow> real option" where
  "balanceOf s i = map_option balance (businesses s i)"

text \<open>
  The transaction document that \<open>receivePayment\<close> creates (step 10) for business document
  \<open>b\<close>, as the call of \<open>Transaction.create\<close> in \<open>receivePayment_credit\<close> builds it.
\<close>

definition creditRecord :: "business \<Rightarrow> object_id \<Rightarrow> string \<Rightarrow> real \<Rightarrow> string \<Rightarrow> int \<Rightarrow> transaction" where
  "creditRecord b bid ordNo orderAmount webhookId now =
     \<lparr>orderNo = Some ordNo, orderId = None, t_business = bid,
      t_type = payment, t_amount = orderAmount / 100, t_status = completed,
      previousBalance = balance b,
      newBalance = balance b + (orderAmount / 100 - fst (receivePayment_charges b (orderAmount / 100))),
      charges_amount = fst (receivePayment_charges b (orderAmount / 100)),
      completedAt = Some now, failedAt = None,
      updatedAt = now, meta_webhookId = Some webhookId,
      meta_netAmount = Some (orderAmount / 100 - fst (receivePayment_charges b (orderAmount / 100)))\<rparr>"

text \<open>
  The conditions under which a delivery gets as far as inserting a transaction: the
  signature verifies, the required fields are there, the amount is positive, the virtual
  account and its business exist, and neither unique index rejects the insert.
\<close>

definition receivePayment_accepts :: "(webhook_body \<Rightarrow> bool) \<Rightarrow> state \<Rightarrow> webhook_request \<Rightarrow> bool" where
  "receivePayment_accepts verify s req =
     (verify (wbody req) \<and>
      (case (wb_orderNo (wbody req), wb_orderAmount (wbody req), wb_virtualAccountNo (wbody req)) of
         (Some ordNo, Some orderAmount, Some virtualAccountNo) \<Rightarrow>
           ordNo \<noteq> [] \<and> virtualAccountNo \<noteq> [] \<and> 0 < orderAmount \<and>
           (case find (\<lambda>a. accountNumber a = virtualAccountNo) (accountNumbers s) of
              None \<Rightarrow> False
            | Some account \<Rightarrow>
                businesses s (businessId account) \<noteq> None \<and>
                \<not> list_ex (\<lambda>u. orderNo u = Some ordNo) (transactions s) \<and>
                \<not> list_ex (\<lambda>u. t_business u = businessId account \<and> orderId u = None \<and> t_type u = payment)
                     (transactions s))
       | _ \<Rightarrow> False))"

text \<open>
  The state after an accepted delivery: the version is incremented; the record is
  inserted; the balance is saved unless it would be negative, in which case the record is
  marked failed.
\<close>

definition creditedState :: "state \<Rightarrow> object_id \<Rightarrow> business \<Rightarrow> string \<Rightarrow> real \<Rightarrow> string \<Rightarrow> int \<Rightarrow> state" where
  "creditedState s bid b0 ordNo a wid now =
     (let b = b0\<lparr>version := version b0 + 1\<rparr>;
          net = a / 100 - fst (receivePayment_charges b0 (a / 100));
          s1 = s\<lparr>businesses := (businesses s)(bid \<mapsto> b)\<rparr>
      in if balance b0 + net < 0
         then s1\<lparr>transactions := transactions s @
                  [(creditRecord b bid ordNo a wid now)
                     \<lparr>t_status := failed, failedAt := Some now, updatedAt := now\<rparr>]\<rparr>
         else s1\<lparr>transactions := transactions s @ [creditRecord b bid ordNo a wid now],
                 businesses := (businesses s)(bid \<mapsto> b\<lparr>balance := balance b0 + net\<rparr>)\<rparr>)"

text \<open>
  The state in which steps 8 to 18 of \<open>initiatePayment\<close> start: the state \<open>s1\<close> after the
  rate-limit update, with the version of business \<open>bid\<close> incremented by
  \<open>findOneAndUpdate\<close>.
\<close>

definition lockedState :: "state \<Rightarrow> object_id \<Rightarrow> business \<Rightarrow> state" where
  "lockedState s1 bid b0 = s1\<lparr>businesses := (businesses s1)(bid \<mapsto> b0\<lparr>version := version b0 + 1\<rparr>)\<rparr>"

text \<open>
  The balance-affecting operations as events, and a run of them one after the other from
  a state: a credit webhook to \<open>receivePayment\<close>, a payment notification to
  \<open>handlePaymentNotification\<close>, a withdrawal request to \<open>initiatePayment\<close>.
\<close>

datatype event =
    CreditWebhook "webhook_body \<Rightarrow> bool" webhook_request string int
  | PaymentNotification "string \<Rightarrow> bool" webhook_request int
  | Withdrawal "payout_request \<Rightarrow> payout_reply" withdraw_request int

fun step :: "state \<Rightarrow> event \<Rightarrow> state" where
  "step s (CreditWebhook verify req rnd now) = fst (snd (receivePayment verify s req rnd now))"
| "step s (PaymentNotification post req now) = snd (handlePaymentNotification post s req now)"
| "step s (Withdrawal payout req now) = fst (snd (initiatePayment payout s req now))"

definition run :: "state \<Rightarrow> event list \<Rightarrow> state" where
  "run s es = foldl step s es"

definition nonNegativeBalances :: "state \<Rightarrow> bool" where
  "nonNegativeBalances s = (\<forall>i x. balanceOf s i = Some x \<longrightarrow> 0 \<le> x)"



section \<open>Concrete scenarios\<close>

text \<open>
  Scenario A of the specification: a business with balance 0 and no fee configuration,
  one virtual account bound to it, and the credit webhook for order \<open>ORD-1\<close> with amount
  10000 minor units.
\<close>

definition scenarioA_state :: state where
  "scenarioA_state =
     \<lparr>transactions = [],
      businesses = [''B1'' \<mapsto> \<lparr>balance = 0, version = 0, charges = None, webhookUrl = None\<rparr>],
      accountNumbers = [\<lparr>accountNumber = ''9000000001'', businessId = ''B1''\<rparr>],
      webhookActivities = [], paymentAttemptCache = [], rateLimitCache = []\<rparr>"

definition scenarioA_request :: webhook_request where
  "scenarioA_request =
     \<lparr>x_webhook_id = None, forwarded_ip = Some ''47.254.157.75'',
      wbody = \<lparr>wb_orderNo = Some ''ORD-1'', wb_orderAmount = Some 10000, wb_orderStatus = Some 1,
               wb_virtualAccountNo = Some ''9000000001''\<rparr>\<rparr>"

text \<open>
  A business \<open>B1\<close> with a given balance, no fee configuration (so the defaults apply) and
  no transactions; a withdrawal request of it; and a provider that answers every payout
  request with success and order status 2 (completed).
\<close>

definition merchant :: "real \<Rightarrow> state" where
  "merchant bal =
     \<lparr>transactions = [],
      businesses = [''B1'' \<mapsto> \<lparr>balance = bal, version = 0, charges = None, webhookUrl = None\<rparr>],
      accountNumbers = [\<lparr>accountNumber = ''9000000001'', businessId = ''B1''\<rparr>],
      webhookActivities = [], paymentAttemptCache = [], rateLimitCache = []\<rparr>"

definition withdrawRequest :: "string \<Rightarrow> real \<Rightarrow> withdraw_request" where
  "withdrawRequest oid A =
     \<lparr>wr_amount = Some A, wr_businessId = Some ''B1'', wr_orderId = Some oid,
      wr_otp = Some ''123456'', wr_ip = ''10.0.0.1''\<rparr>"

definition payoutCompleted :: "payout_request \<Rightarrow> payout_reply" where
  "payoutCompleted pr = PayoutAnswer ''00000000'' None \<lparr>pd_orderNo = ''PP-'' @ pr_orderId pr, pd_orderStatus = 2\<rparr>"


text \<open>
  Built-ins for the examples of the signature verifier: \<open>decodeURIComponent\<close> throws on a
  signature that contains a percent sign, the verification throws on the signature
  \<open>boom\<close> and otherwise accepts the signature that equals the digest, and the digest is
  the identity.
\<close>

definition sampleBuiltins :: builtins where
  "sampleBuiltins =
     \<lparr>decodeURIComponent =
        (\<lambda>v. case v of JString str \<Rightarrow> if CHR ''%'' \<in> set str then Inl URIError else Inr str
                      | _ \<Rightarrow> Inr ''x''),
      ToString = (\<lambda>v. case v of JString str \<Rightarrow> Inr str | _ \<Rightarrow> Inr ''0''),
      md5_hex_upper = (\<lambda>str. Inr str),
      rsa_sha1_verify = (\<lambda>dat sig. if sig = ''boom'' then Inl CryptoError else Inr (sig = dat))\<rparr>"

text \<open>A credit webhook for a virtual account number that no binding has.\<close>

definition unknownAccountRequest :: webhook_request where
  "unknownAccountRequest =
     \<lparr>x_webhook_id = None, forwarded_ip = Some ''47.254.157.75'',
      wbody = \<lparr>wb_orderNo = Some ''ORD-9'', wb_orderAmount = Some 10000, wb_orderStatus = Some 1,
               wb_virtualAccountNo = Some ''0000000000''\<rparr>\<rparr>"

text \<open>
  A business with balance 50 whose payment fee is a fixed 200, more than the gross 100 of
  the credit webhook of scenario A.
\<close>

definition fixedFeeState :: state where
  "fixedFeeState =
     \<lparr>transactions = [],
      businesses = [''B1'' \<mapsto> \<lparr>balance = 50, version = 0,
                                charges = Some \<lparr>payment_cfg = Some \<lparr>percentage = None, cap = None, useDefault = False,
                                                                     fixedPrice = Some 200, ctype = Fixed\<rparr>,
                                                withdrawal_cfg = None\<rparr>,
                                webhookUrl = None\<rparr>],
      accountNumbers = [\<lparr>accountNumber = ''9000000001'', businessId = ''B1''\<rparr>],
      webhookActivities = [], paymentAttemptCache = [], rateLimitCache = []\<rparr>"


definition chainEvents :: "event list" where
  "chainEvents =
     [CreditWebhook (\<lambda>b. True) scenarioA_request ''w1'' 1,
      Withdrawal payoutCompleted (withdrawRequest ''W-1'' 3000) 2,
      Withdrawal payoutCompleted (withdrawRequest ''W-2'' 2000) 3]"



section \<open>Properties\<close>

subsection \<open>Auxiliary facts\<close>


lemma findByIdAndUpdate_last: "findByIdAndUpdate (length txs) f (txs @ [t]) = txs @ [f t]"
  by (simp add: findByIdAndUpdate_def)

lemma credit_rejected:
  "list_ex (\<lambda>u. orderNo u = Some ordNo) (transactions s) \<or>
   list_ex (\<lambda>u. t_business u = bid \<and> orderId u = None \<and> t_type u = payment) (transactions s) \<Longrightarrow>
   fst (receivePayment_credit s bid b ordNo a wid now) = s"
  by (auto simp add: receivePayment_credit_def Transaction_create_def violatesUnique_def Let_def)

lemma not_accepts_noop:
  assumes "\<not> receivePayment_accepts verify s req"
  shows "transactions (fst (snd (receivePayment verify s req rnd now))) = transactions s"
    and "accountNumbers (fst (snd (receivePayment verify s req rnd now))) = accountNumbers s"
    and "balanceOf (fst (snd (receivePayment verify s req rnd now))) = balanceOf s"
    and "dom (businesses (fst (snd (receivePayment verify s req rnd now)))) = dom (businesses s)"
  using assms
  by (auto simp add: receivePayment_def receivePayment_async_def receivePayment_accepts_def Let_def
      truthy_str_def truthy_num_def credit_rejected balanceOf_def fun_eq_iff
      split: option.splits if_splits)


lemma charges_version [simp]: "receivePayment_charges (b\<lparr>version := v\<rparr>) a = receivePayment_charges b a"
  by (simp add: receivePayment_charges_def)

lemma credit_accepted:
  assumes "\<not> list_ex (\<lambda>u. orderNo u = Some ordNo) (transactions s)"
    and "\<not> list_ex (\<lambda>u. t_business u = bid \<and> orderId u = None \<and> t_type u = payment) (transactions s)"
    and "0 < a"
  shows "fst (receivePayment_credit s bid b ordNo a wid now) =
     (if balance b + (a / 100 - fst (receivePayment_charges b (a / 100))) < 0
      then s\<lparr>transactions := transactions s @
              [(creditRecord b bid ordNo a wid now)\<lparr>t_status := failed, failedAt := Some now, updatedAt := now\<rparr>]\<rparr>
      else s\<lparr>transactions := transactions s @ [creditRecord b bid ordNo a wid now],
             businesses := (businesses s)(bid \<mapsto> b\<lparr>balance := balance b + (a / 100 - fst (receivePayment_charges b (a / 100)))\<rparr>)\<rparr>)"
  using assms
  by (simp add: receivePayment_credit_def Transaction_create_def violatesUnique_def Let_def
      Business_save_def findByIdAndUpdate_last creditRecord_def)



lemma not_ex_conj: "\<not> list_ex P xs \<Longrightarrow> \<not> list_ex (\<lambda>x. P x \<and> Q x) xs"
  by (auto simp add: list_ex_iff)

lemma acceptsD:
  assumes "receivePayment_accepts verify s req"
  obtains ordNo a van acct b0 where
    "verify (wbody req)"
    "wb_orderNo (wbody req) = Some ordNo" "ordNo \<noteq> []"
    "wb_orderAmount (wbody req) = Some a" "0 < a"
    "wb_virtualAccountNo (wbody req) = Some van" "van \<noteq> []"
    "find (\<lambda>x. accountNumber x = van) (accountNumbers s) = Some acct"
    "businesses s (businessId acct) = Some b0"
    "\<not> list_ex (\<lambda>u. orderNo u = Some ordNo) (transactions s)"
    "\<not> list_ex (\<lambda>u. t_business u = businessId acct \<and> orderId u = None \<and> t_type u = payment) (transactions s)"
  using assms
  by (auto simp add: receivePayment_accepts_def split: option.splits)

lemma accepted_state:
  assumes "verify (wbody req)"
    "wb_orderNo (wbody req) = Some ordNo" "ordNo \<noteq> []"
    "wb_orderAmount (wbody req) = Some a" "0 < a"
    "wb_virtualAccountNo (wbody req) = Some van" "van \<noteq> []"
    "find (\<lambda>x. accountNumber x = van) (accountNumbers s) = Some acct"
    "businesses s (businessId acct) = Some b0"
    "\<not> list_ex (\<lambda>u. orderNo u = Some ordNo) (transactions s)"
    "\<not> list_ex (\<lambda>u. t_business u = businessId acct \<and> orderId u = None \<and> t_type u = payment) (transactions s)"
  shows "fst (snd (receivePayment verify s req rnd now)) =
           creditedState s (businessId acct) b0 ordNo a
             (case x_webhook_id req of None \<Rightarrow> rnd | Some h \<Rightarrow> if h = [] then rnd else h) now"
  using assms
  by (simp add: receivePayment_def receivePayment_async_def Let_def
      truthy_str_def truthy_num_def credit_accepted not_ex_conj creditedState_def)







subsection \<open>Auxiliary facts about the withdrawal\<close>

lemma rateLimit_frame:
  assumes "rateLimit s k now = Some s1"
  shows "transactions s1 = transactions s" "businesses s1 = businesses s"
    "paymentAttemptCache s1 = paymentAttemptCache s" "accountNumbers s1 = accountNumbers s"
    "webhookActivities s1 = webhookActivities s"
  using assms by (auto simp add: rateLimit_def Let_def split: if_splits)

lemma currency_valid: "''NGN'' \<in> set validCurrencies"
  by (simp add: validCurrencies_def)

lemma initiatePayment_cases:
  "(snd (snd (initiatePayment payout s req now)) = None \<and>
    transactions (fst (snd (initiatePayment payout s req now))) = transactions s \<and>
    businesses (fst (snd (initiatePayment payout s req now))) = businesses s) \<or>
   (\<exists>A bid oid b0 s1.
      wr_amount req = Some A \<and> A \<noteq> 0 \<and> wr_businessId req = Some bid \<and> wr_orderId req = Some oid \<and>
      rateLimit s (bid, wr_ip req) now = Some s1 \<and>
      \<not> recentAttempt (paymentAttemptCache s) (bid, oid) now \<and>
      existingGuard (transactions s) bid oid now = Proceed \<and>
      businesses s bid = Some b0 \<and>
      initiatePayment payout s req now =
        initiatePayment_payout payout (lockedState s1 bid b0) bid (b0\<lparr>version := version b0 + 1\<rparr>) oid A now)"
  by (auto simp add: initiatePayment_def Let_def truthy_num_def truthy_str_def currency_valid
      rateLimit_frame lockedState_def
      split: option.splits guard.splits)





lemma payout_businesses:
  "businesses (fst (snd (initiatePayment_payout payout s bid b oid A now))) = businesses s \<or>
   (A \<le> balance b \<and> 100 \<le> A \<and>
    businesses (fst (snd (initiatePayment_payout payout s bid b oid A now))) =
      (businesses s)(bid \<mapsto> b\<lparr>balance := balance b - A\<rparr>))"
  by (auto simp add: initiatePayment_payout_def initiatePayment_failed_def Let_def Transaction_create_def
      Business_save_def
      split: if_splits payout_reply.splits sum.splits prod.splits)



lemma withdrawalFee_version [simp]: "withdrawalFee (b\<lparr>version := v\<rparr>) A = withdrawalFee b A"
  by (simp add: withdrawalFee_def customTiers_def)

lemma balanceOf_locked [simp]:
  "businesses s1 = businesses s \<Longrightarrow> businesses s bid = Some b0 \<Longrightarrow>
   balanceOf (lockedState s1 bid b0) = balanceOf s"
  by (auto simp add: balanceOf_def lockedState_def fun_eq_iff)

lemma lockedState_simps [simp]:
  "transactions (lockedState s1 bid b0) = transactions s1"
  "businesses (lockedState s1 bid b0) = (businesses s1)(bid \<mapsto> b0\<lparr>version := version b0 + 1\<rparr>)"
  by (simp_all add: lockedState_def)




lemmas eval_defs = initiatePayment_def initiatePayment_payout_def initiatePayment_failed_def
  rateLimit_def recentAttempt_def existingGuard_def Transaction_create_def violatesUnique_def
  Business_save_def withdrawalFee_def customTiers_def tierFee_def defaultTier1_def defaultTier2_def
  defaultTier3_def truthy_num_def truthy_str_def Let_def validCurrencies_def
  RATE_LIMIT_WINDOW_def MAX_ATTEMPTS_def CACHE_TTL_def retryTimeWindow_def toFixed2_def
  merchant_def withdrawRequest_def payoutCompleted_def str_or_def AList.delete_eq





subsection \<open>Auxiliary facts about the webhooks\<close>

lemma no_binding_find:
  assumes "\<not> list_ex (\<lambda>a. Some (accountNumber a) = v) accts"
  shows "find (\<lambda>a. Some (accountNumber a) = v) accts = None"
    and "v = Some van \<Longrightarrow> find (\<lambda>a. accountNumber a = van) accts = None"
  using assms by (auto simp add: find_None_iff list_ex_iff)

lemma logActivity_frame [simp]:
  "transactions (logActivity s bid ev ordNo st err n) = transactions s"
  "businesses (logActivity s bid ev ordNo st err n) = businesses s"
  "accountNumbers (logActivity s bid ev ordNo st err n) = accountNumbers s"
  "webhookActivities (logActivity s bid ev ordNo st err n) \<noteq> []"
  "wa_status (last (webhookActivities (logActivity s bid ev ordNo st err n))) = st"
  by (simp_all add: logActivity_def)

subsection \<open>Auxiliary facts about balance writes\<close>

lemma balanceOf_creditedState:
  "businesses s bid = Some b0 \<Longrightarrow>
   balanceOf (creditedState s bid b0 ordNo a wid now) =
     (if balance b0 + (a / 100 - fst (receivePayment_charges b0 (a / 100))) < 0 then balanceOf s
      else (balanceOf s)(bid \<mapsto> balance b0 + (a / 100 - fst (receivePayment_charges b0 (a / 100)))))"
  by (auto simp add: creditedState_def Let_def balanceOf_def fun_eq_iff)

lemma credit_write:
  "balanceOf (fst (snd (receivePayment verify s req rnd now))) = balanceOf s \<or>
   (\<exists>i new. balanceOf s i \<noteq> None \<and> 0 \<le> new \<and>
      balanceOf (fst (snd (receivePayment verify s req rnd now))) = (balanceOf s)(i \<mapsto> new))"
proof (cases "receivePayment_accepts verify s req")
  case True
  then obtain ordNo a van acct b0 where f:
    "verify (wbody req)"
    "wb_orderNo (wbody req) = Some ordNo" "ordNo \<noteq> []"
    "wb_orderAmount (wbody req) = Some a" "0 < a"
    "wb_virtualAccountNo (wbody req) = Some van" "van \<noteq> []"
    "find (\<lambda>x. accountNumber x = van) (accountNumbers s) = Some acct"
    "businesses s (businessId acct) = Some b0"
    "\<not> list_ex (\<lambda>u. orderNo u = Some ordNo) (transactions s)"
    "\<not> list_ex (\<lambda>u. t_business u = businessId acct \<and> orderId u = None \<and> t_type u = payment) (transactions s)"
    by (rule acceptsD)
  have st: "fst (snd (receivePayment verify s req rnd now)) =
           creditedState s (businessId acct) b0 ordNo a
             (case x_webhook_id req of None \<Rightarrow> rnd | Some h \<Rightarrow> if h = [] then rnd else h) now"
    using f by (rule accepted_state)
  have nn: "balanceOf s (businessId acct) \<noteq> None"
    using f(9) by (simp add: balanceOf_def)
  show ?thesis
  proof (cases "balance b0 + (a / 100 - fst (receivePayment_charges b0 (a / 100))) < 0")
    case True
    then have "balanceOf (fst (snd (receivePayment verify s req rnd now))) = balanceOf s"
      by (simp add: st balanceOf_creditedState [OF f(9)])
    then show ?thesis by simp
  next
    case False
    then have "balanceOf (fst (snd (receivePayment verify s req rnd now))) =
       (balanceOf s)(businessId acct \<mapsto> balance b0 + (a / 100 - fst (receivePayment_charges b0 (a / 100))))"
      by (simp add: st balanceOf_creditedState [OF f(9)])
    moreover have "0 \<le> balance b0 + (a / 100 - fst (receivePayment_charges b0 (a / 100)))"
      using False by simp
    ultimately show ?thesis using nn by blast
  qed
next
  case False
  then show ?thesis by (simp add: not_accepts_noop(3))
qed

lemma withdraw_write:
  "balanceOf (fst (snd (initiatePayment payout s req now))) = balanceOf s \<or>
   (\<exists>i new. balanceOf s i \<noteq> None \<and> 0 \<le> new \<and>
      balanceOf (fst (snd (initiatePayment payout s req now))) = (balanceOf s)(i \<mapsto> new))"
proof -
  consider (early) "businesses (fst (snd (initiatePayment payout s req now))) = businesses s"
    | (late) A bid oid b0 s1 where "rateLimit s (bid, wr_ip req) now = Some s1" "businesses s bid = Some b0"
        "initiatePayment payout s req now =
           initiatePayment_payout payout (lockedState s1 bid b0) bid (b0\<lparr>version := version b0 + 1\<rparr>) oid A now"
    using initiatePayment_cases [of payout s req now] by auto
  then show ?thesis
  proof cases
    case early
    then show ?thesis by (simp add: balanceOf_def fun_eq_iff)
  next
    case late
    note fr = rateLimit_frame [OF late(1)]
    have nn: "balanceOf s bid \<noteq> None" using late(2) by (simp add: balanceOf_def)
    from payout_businesses [of payout "lockedState s1 bid b0" bid "b0\<lparr>version := version b0 + 1\<rparr>" oid A now]
    show ?thesis
    proof
      assume "businesses (fst (snd (initiatePayment_payout payout (lockedState s1 bid b0) bid (b0\<lparr>version := version b0 + 1\<rparr>) oid A now))) =
              businesses (lockedState s1 bid b0)"
      then have "balanceOf (fst (snd (initiatePayment payout s req now))) = balanceOf s"
        using fr late(2) by (auto simp add: late(3) balanceOf_def fun_eq_iff)
      then show ?thesis by simp
    next
      assume a: "A \<le> balance (b0\<lparr>version := version b0 + 1\<rparr>) \<and> 100 \<le> A \<and>
        businesses (fst (snd (initiatePayment_payout payout (lockedState s1 bid b0) bid (b0\<lparr>version := version b0 + 1\<rparr>) oid A now))) =
          (businesses (lockedState s1 bid b0))(bid \<mapsto> b0\<lparr>version := version b0 + 1\<rparr>\<lparr>balance := balance (b0\<lparr>version := version b0 + 1\<rparr>) - A\<rparr>)"
      then have "balanceOf (fst (snd (initiatePayment payout s req now))) = (balanceOf s)(bid \<mapsto> balance b0 - A)"
        using fr late(2) by (auto simp add: late(3) balanceOf_def fun_eq_iff)
      moreover have "0 \<le> balance b0 - A" using a by simp
      ultimately show ?thesis using nn by blast
    qed
  qed
qed

lemma createTransactionRecord_write:
  assumes "businesses s bid = Some b"
  shows "balanceOf (snd (createTransactionRecord s pd bid b amt ch net now)) = balanceOf s \<or>
     (0 \<le> balance b + net \<and>
      balanceOf (snd (createTransactionRecord s pd bid b amt ch net now)) = (balanceOf s)(bid \<mapsto> balance b + net))"
  using assms
  by (auto simp add: createTransactionRecord_def Business_save_def Let_def balanceOf_def fun_eq_iff
      split: sum.splits prod.splits)

lemma processPayment_state:
  "snd (processPayment s pd now) = s \<or>
   (\<exists>bid b amt ch net.
      businesses s bid = Some b \<and>
      snd (processPayment s pd now) = snd (createTransactionRecord s pd bid b amt ch net now))"
proof (cases "\<exists>account b orderAmount.
      \<not> list_ex (\<lambda>t. orderNo t = wb_orderNo pd) (transactions s) \<and>
      find (\<lambda>a. Some (accountNumber a) = wb_virtualAccountNo pd) (accountNumbers s) = Some account \<and>
      businesses s (businessId account) = Some b \<and> wb_orderStatus pd = Some 1 \<and>
      wb_orderAmount pd = Some orderAmount")
  case True
  then obtain account b orderAmount where h:
      "\<not> list_ex (\<lambda>t. orderNo t = wb_orderNo pd) (transactions s)"
      "find (\<lambda>a. Some (accountNumber a) = wb_virtualAccountNo pd) (accountNumbers s) = Some account"
      "businesses s (businessId account) = Some b" "wb_orderStatus pd = Some 1"
      "wb_orderAmount pd = Some orderAmount"
    by blast
  have "snd (processPayment s pd now) =
        snd (createTransactionRecord s pd (businessId account) b (orderAmount / 100)
               (fst (calculateCharges (orderAmount / 100) b)) (snd (calculateCharges (orderAmount / 100) b)) now)"
    using h by (simp add: processPayment_def Let_def split: sum.splits prod.splits)
  with h(3) have "businesses s (businessId account) = Some b \<and>
      snd (processPayment s pd now) =
        snd (createTransactionRecord s pd (businessId account) b (orderAmount / 100)
               (fst (calculateCharges (orderAmount / 100) b)) (snd (calculateCharges (orderAmount / 100) b)) now)"
    by simp
  then show ?thesis by blast
next
  case False
  then have "snd (processPayment s pd now) = s"
    by (auto simp add: processPayment_def Let_def split: option.splits)
  then show ?thesis by simp
qed

lemma processPayment_write:
  "balanceOf (snd (processPayment s pd now)) = balanceOf s \<or>
   (\<exists>i new. balanceOf s i \<noteq> None \<and> 0 \<le> new \<and>
      balanceOf (snd (processPayment s pd now)) = (balanceOf s)(i \<mapsto> new))"
proof -
  consider (same) "snd (processPayment s pd now) = s"
    | (rec) bid b amt ch net where "businesses s bid = Some b"
        "snd (processPayment s pd now) = snd (createTransactionRecord s pd bid b amt ch net now)"
    using processPayment_state [of s pd now] by blast
  then show ?thesis
  proof cases
    case same
    then show ?thesis by simp
  next
    case rec
    have nn: "balanceOf s bid \<noteq> None" using rec(1) by (simp add: balanceOf_def)
    from createTransactionRecord_write [OF rec(1), of pd amt ch net now] nn
    show ?thesis unfolding rec(2) by blast
  qed
qed

lemma logActivity_balanceOf [simp]: "balanceOf (logActivity s bid ev ordNo st err n) = balanceOf s"
  by (simp add: balanceOf_def logActivity_def fun_eq_iff)

lemma notifyBusiness_balanceOf [simp]: "balanceOf (notifyBusiness post s bid b ordNo) = balanceOf s"
  by (simp add: notifyBusiness_def split: option.splits)

lemma notification_write:
  "balanceOf (snd (handlePaymentNotification post s req now)) = balanceOf s \<or>
   (\<exists>i new. balanceOf s i \<noteq> None \<and> 0 \<le> new \<and>
      balanceOf (snd (handlePaymentNotification post s req now)) = (balanceOf s)(i \<mapsto> new))"
proof -
  define s1 where "s1 = logActivity s None ''payment.notification'' (wb_orderNo (wbody req)) ''pending'' None
     (case find (\<lambda>a. wa_event a = ''payment.notification'' \<and> wa_orderNo a = wb_orderNo (wbody req))
              (rev (webhookActivities s)) of None \<Rightarrow> 0 | Some a \<Rightarrow> wa_retryCount a + 1)"
  have b1: "balanceOf s1 = balanceOf s" by (simp add: s1_def)
  have "balanceOf (snd (handlePaymentNotification post s req now)) = balanceOf s1 \<or>
        balanceOf (snd (handlePaymentNotification post s req now)) = balanceOf (snd (processPayment s1 (wbody req) now))"
    by (simp add: handlePaymentNotification_def Let_def s1_def [symmetric]
        split: sum.splits prod.splits thrown.splits)
  then show ?thesis
  proof
    assume "balanceOf (snd (handlePaymentNotification post s req now)) = balanceOf s1"
    then show ?thesis by (simp add: b1)
  next
    assume a: "balanceOf (snd (handlePaymentNotification post s req now)) = balanceOf (snd (processPayment s1 (wbody req) now))"
    show ?thesis
      using processPayment_write [of s1 "wbody req" now] unfolding a b1 .
  qed
qed

lemma step_write:
  "balanceOf (step s e) = balanceOf s \<or>
   (\<exists>i new. balanceOf s i \<noteq> None \<and> 0 \<le> new \<and> balanceOf (step s e) = (balanceOf s)(i \<mapsto> new))"
proof (cases e)
  case (CreditWebhook verify req rnd now)
  then show ?thesis using credit_write [of verify s req rnd now] by simp
next
  case (PaymentNotification post req now)
  then show ?thesis using notification_write [of post s req now] by simp
next
  case (Withdrawal payout req now)
  then show ?thesis using withdraw_write [of payout s req now] by simp
qed

lemma step_nonNegative: "nonNegativeBalances s \<Longrightarrow> nonNegativeBalances (step s e)"
  using step_write [of s e] by (auto simp add: nonNegativeBalances_def split: if_splits)

lemma run_nonNegative: "nonNegativeBalances s \<Longrightarrow> nonNegativeBalances (run s es)"
  unfolding run_def by (induction es arbitrary: s) (simp_all add: step_nonNegative)

subsection \<open>Auxiliary facts about the records created\<close>






lemma notifyBusiness_frame [simp]:
  "transactions (notifyBusiness post s bid b ordNo) = transactions s"
  by (simp add: notifyBusiness_def split: option.splits)



lemmas credit_eval_defs = receivePayment_def receivePayment_async_def receivePayment_credit_def
  receivePayment_charges_def scenarioA_request_def round2_def Math_round_def

lemma chain_run:
  "map (\<lambda>t. (t_type t, t_status t, t_business t, previousBalance t, newBalance t))
     (transactions (run (merchant 10000) (take 1 chainEvents))) =
     [(payment, completed, ''B1'', 10000, 20197 / 2)]"
  "map (\<lambda>t. (t_type t, t_status t, t_business t, previousBalance t, newBalance t))
     (transactions (run (merchant 10000) (take 2 chainEvents))) =
     [(payment, completed, ''B1'', 10000, 20197 / 2), (withdrawal, completed, ''B1'', 20197 / 2, 14197 / 2)]"
  "map (\<lambda>t. (t_type t, t_status t, t_business t, previousBalance t, newBalance t))
     (transactions (run (merchant 10000) chainEvents)) =
     [(payment, completed, ''B1'', 10000, 20197 / 2), (withdrawal, completed, ''B1'', 20197 / 2, 14197 / 2),
      (withdrawal, completed, ''B1'', 14197 / 2, 10197 / 2)]"
  by (simp_all add: run_def chainEvents_def eval_defs credit_eval_defs)



subsection \<open>C1: replaying a credit webhook\<close>





subsection \<open>C2: conservation\<close>





subsection \<open>C3: a withdrawal request whose order id already has a record\<close>






subsection \<open>C4: the percentage charge\<close>




subsection \<open>C5: insufficient balance\<close>


lemma scenarioC_run:
  "fst (initiatePayment payoutCompleted (merchant 4000) (withdrawRequest ''W-3'' 5000) 1000) =
     AppError ''Insufficient balance for this withdrawal'' 400"
  by (simp add: eval_defs)


subsection \<open>C6: the fee of the first default tier\<close>




subsection \<open>C7: the signature verifier absorbs every exception\<close>

lemma sampleBuiltins_runs:
  "verifySignature_try sampleBuiltins (JObject [(''orderNo'', JString ''A''), (''sign'', JString ''boom'')]) =
     Inl CryptoError"
  "verifySignature_try sampleBuiltins (JObject [(''orderNo'', JString ''A''), (''sign'', JString ''%'')]) =
     Inl URIError"
  "verifySignature_try sampleBuiltins
     (JObject [(''orderNo'', JString ''A''), (''zz'', JString ''B''), (''amount'', JNumber 5),
               (''sign'', JString ''amount=0&orderNo=A&zz=B'')]) = Inr True"
  "destructure (JObject [(''orderNo'', JString ''A'')]) = Inr (JUndefined, [(''orderNo'', JString ''A'')])"
  by (simp_all add: verifySignature_try_def sampleBuiltins_def destructure_def falsy_def Let_def)

text \<open>
  Claim C7. For every notification (any JavaScript value) and whatever the built-ins do,
  \<open>verifySignature\<close> returns a boolean and no exception leaves it. An exception raised
  anywhere in the verification makes the result \<open>false\<close>: in particular destructuring
  \<open>null\<close> or \<open>undefined\<close>, decoding a malformed signature, and the crypto operations. A
  missing or otherwise falsy \<open>sign\<close> gives \<open>false\<close> too. When nothing is raised the result
  is what the verification computed.
\<close>

theorem C7_verifier_never_throws:
  "(\<exists>r. verifySignature env notification = Inr r) \<and>
   (\<forall>e. verifySignature_try env notification = Inl e \<longrightarrow> verifySignature env notification = Inr False) \<and>
   (\<forall>r. verifySignature_try env notification = Inr r \<longrightarrow> verifySignature env notification = Inr r) \<and>
   (\<forall>sign params. destructure notification = Inr (sign, params) \<and> falsy sign \<longrightarrow>
        verifySignature env notification = Inr False) \<and>
   (\<forall>e. destructure notification = Inl e \<longrightarrow> verifySignature env notification = Inr False) \<and>
   (\<forall>sign params e. destructure notification = Inr (sign, params) \<and> decodeURIComponent env sign = Inl e \<longrightarrow>
        verifySignature env notification = Inr False)"
  by (auto simp add: verifySignature_def verifySignature_try_def try_catch_def Let_def
      split: sum.splits prod.splits)

theorem C7_verifier_never_throws_witness:
  "verifySignature sampleBuiltins (JObject [(''orderNo'', JString ''A''), (''sign'', JString ''boom'')]) = Inr False \<and>
   verifySignature sampleBuiltins (JObject [(''orderNo'', JString ''A''), (''sign'', JString ''%'')]) = Inr False \<and>
   verifySignature sampleBuiltins (JObject [(''orderNo'', JString ''A'')]) = Inr False \<and>
   verifySignature sampleBuiltins JNull = Inr False \<and>
   verifySignature sampleBuiltins
     (JObject [(''orderNo'', JString ''A''), (''zz'', JString ''B''), (''amount'', JNumber 5),
               (''sign'', JString ''amount=0&orderNo=A&zz=B'')]) = Inr True"
proof -
  have 1: "verifySignature sampleBuiltins (JObject [(''orderNo'', JString ''A''), (''sign'', JString ''boom'')]) = Inr False"
    using C7_verifier_never_throws [of sampleBuiltins "JObject [(''orderNo'', JString ''A''), (''sign'', JString ''boom'')]"]
      sampleBuiltins_runs(1) by blast
  have 2: "verifySignature sampleBuiltins (JObject [(''orderNo'', JString ''A''), (''sign'', JString ''%'')]) = Inr False"
    using C7_verifier_never_throws [of sampleBuiltins "JObject [(''orderNo'', JString ''A''), (''sign'', JString ''%'')]"]
      sampleBuiltins_runs(2) by blast
  have 3: "verifySignature sampleBuiltins (JObject [(''orderNo'', JString ''A'')]) = Inr False"
    using C7_verifier_never_throws [of sampleBuiltins "JObject [(''orderNo'', JString ''A'')]"]
      sampleBuiltins_runs(4) by (simp add: falsy_def)
  have 4: "verifySignature sampleBuiltins JNull = Inr False"
    using C7_verifier_never_throws [of sampleBuiltins JNull] by (simp add: destructure_def)
  have 5: "verifySignature sampleBuiltins
     (JObject [(''orderNo'', JString ''A''), (''zz'', JString ''B''), (''amount'', JNumber 5),
               (''sign'', JString ''amount=0&orderNo=A&zz=B'')]) = Inr True"
    using C7_verifier_never_throws [of sampleBuiltins "JObject [(''orderNo'', JString ''A''), (''zz'', JString ''B''), (''amount'', JNumber 5),
               (''sign'', JString ''amount=0&orderNo=A&zz=B'')]"]
      sampleBuiltins_runs(3) by blast
  show ?thesis using 1 2 3 4 5 by blast
qed

subsection \<open>C8: a webhook whose virtual account has no binding\<close>

text \<open>
  Claim C8, as stated, fails on the second of the two handlers it names.
  \<open>handlePaymentNotification\<close> answers a notification whose virtual account does not
  resolve with the status of the \<open>AppError\<close> that \<open>processPayment\<close> throws, 400, not with
  success (the handler's comment: return an error status to trigger a retry).
\<close>

theorem C8_notification_answers_400_counterexample:
  "fst (handlePaymentNotification (\<lambda>url. True) scenarioA_state unknownAccountRequest 1) =
     Send 400 ''Account not found for virtual account''"
  by (simp add: handlePaymentNotification_def processPayment_def scenarioA_state_def unknownAccountRequest_def
      validateIpAddress_def PAYVESSEL_IP_def logActivity_def Let_def)

text \<open>
  Claim C8, amended. For every inbound credit webhook whose virtual account number has no
  \<open>AccountNumber\<close> record: \<open>receivePayment\<close> answers 200, leaves the whole state unchanged
  and logs (when the webhook gets as far as the account look-up, the answer is the
  success acknowledgement and the log entry is the error \<open>Account not found\<close>);
  \<open>handlePaymentNotification\<close> changes no balance and creates no transaction record, and
  when the source IP is the provider's and the order number is new it records a failed
  webhook activity and answers 400 with \<open>Account not found for virtual account\<close>.
\<close>

theorem C8_missing_binding:
  assumes "\<not> list_ex (\<lambda>a. Some (accountNumber a) = wb_virtualAccountNo (wbody req)) (accountNumbers s)"
  shows "(\<exists>body. fst (receivePayment verify s req rnd now) = Json 200 body) \<and>
         fst (snd (receivePayment verify s req rnd now)) = s \<and>
         snd (snd (receivePayment verify s req rnd now)) \<noteq> [] \<and>
         (verify (wbody req) \<and> truthy_str (wb_orderNo (wbody req)) \<and> truthy_str (wb_virtualAccountNo (wbody req)) \<and>
          (\<exists>a. wb_orderAmount (wbody req) = Some a \<and> 0 < a) \<and>
          \<not> list_ex (\<lambda>t. orderNo t = wb_orderNo (wbody req)) (transactions s) \<longrightarrow>
            fst (receivePayment verify s req rnd now) =
              Json 200 [(''status'', JStr ''success''), (''message'', JStr ''Webhook received, processing payment''),
                        (''webhookId'', JStr (case x_webhook_id req of None \<Rightarrow> rnd | Some h \<Rightarrow> if h = [] then rnd else h))] \<and>
            snd (snd (receivePayment verify s req rnd now)) = [(LError, ''Account not found'')]) \<and>
         transactions (snd (handlePaymentNotification post s req now)) = transactions s \<and>
         businesses (snd (handlePaymentNotification post s req now)) = businesses s \<and>
         (validateIpAddress (forwarded_ip req) \<and>
          \<not> list_ex (\<lambda>t. orderNo t = wb_orderNo (wbody req)) (transactions s) \<longrightarrow>
            fst (handlePaymentNotification post s req now) = Send 400 ''Account not found for virtual account'' \<and>
            wa_status (last (webhookActivities (snd (handlePaymentNotification post s req now)))) = ''failed'')"
proof -
  note nb = no_binding_find [OF assms]
  have rp: "(\<exists>body. fst (receivePayment verify s req rnd now) = Json 200 body) \<and>
         fst (snd (receivePayment verify s req rnd now)) = s \<and>
         snd (snd (receivePayment verify s req rnd now)) \<noteq> []"
    using nb(2)
    by (auto simp add: receivePayment_def receivePayment_async_def Let_def truthy_str_def truthy_num_def
        split: option.splits)
  have rp2: "fst (receivePayment verify s req rnd now) =
              Json 200 [(''status'', JStr ''success''), (''message'', JStr ''Webhook received, processing payment''),
                        (''webhookId'', JStr (case x_webhook_id req of None \<Rightarrow> rnd | Some h \<Rightarrow> if h = [] then rnd else h))] \<and>
            snd (snd (receivePayment verify s req rnd now)) = [(LError, ''Account not found'')]"
    if "verify (wbody req)" "truthy_str (wb_orderNo (wbody req))" "truthy_str (wb_virtualAccountNo (wbody req))"
      "\<exists>a. wb_orderAmount (wbody req) = Some a \<and> 0 < a"
      "\<not> list_ex (\<lambda>t. orderNo t = wb_orderNo (wbody req)) (transactions s)"
    using that nb(2)
    by (auto simp add: receivePayment_def receivePayment_async_def Let_def truthy_str_def truthy_num_def
        list_ex_iff split: option.splits)
  have hp: "transactions (snd (handlePaymentNotification post s req now)) = transactions s \<and>
         businesses (snd (handlePaymentNotification post s req now)) = businesses s"
    using nb(1)
    by (simp add: handlePaymentNotification_def processPayment_def Let_def)
  have hp2: "fst (handlePaymentNotification post s req now) = Send 400 ''Account not found for virtual account'' \<and>
            wa_status (last (webhookActivities (snd (handlePaymentNotification post s req now)))) = ''failed''"
    if "validateIpAddress (forwarded_ip req)"
      "\<not> list_ex (\<lambda>t. orderNo t = wb_orderNo (wbody req)) (transactions s)"
    using that nb(1)
    by (simp add: handlePaymentNotification_def processPayment_def Let_def)
  show ?thesis using rp rp2 hp hp2 by blast
qed

theorem C8_missing_binding_witness:
  "fst (receivePayment (\<lambda>b. True) scenarioA_state unknownAccountRequest ''w1'' 1) =
     Json 200 [(''status'', JStr ''success''), (''message'', JStr ''Webhook received, processing payment''),
               (''webhookId'', JStr ''w1'')] \<and>
   fst (snd (receivePayment (\<lambda>b. True) scenarioA_state unknownAccountRequest ''w1'' 1)) = scenarioA_state \<and>
   snd (snd (receivePayment (\<lambda>b. True) scenarioA_state unknownAccountRequest ''w1'' 1)) =
     [(LError, ''Account not found'')] \<and>
   transactions (snd (handlePaymentNotification (\<lambda>url. True) scenarioA_state unknownAccountRequest 1)) = [] \<and>
   fst (handlePaymentNotification (\<lambda>url. True) scenarioA_state unknownAccountRequest 1) =
     Send 400 ''Account not found for virtual account''"
proof -
  have h: "\<not> list_ex (\<lambda>a. Some (accountNumber a) = wb_virtualAccountNo (wbody unknownAccountRequest))
               (accountNumbers scenarioA_state)"
    by (simp add: scenarioA_state_def unknownAccountRequest_def)
  have g: "truthy_str (wb_orderNo (wbody unknownAccountRequest))"
    "truthy_str (wb_virtualAccountNo (wbody unknownAccountRequest))"
    "\<exists>a. wb_orderAmount (wbody unknownAccountRequest) = Some a \<and> 0 < a"
    "\<not> list_ex (\<lambda>t. orderNo t = wb_orderNo (wbody unknownAccountRequest)) (transactions scenarioA_state)"
    "validateIpAddress (forwarded_ip unknownAccountRequest)"
    "x_webhook_id unknownAccountRequest = None"
    "transactions scenarioA_state = []"
    by (simp_all add: scenarioA_state_def unknownAccountRequest_def truthy_str_def validateIpAddress_def
        PAYVESSEL_IP_def)
  from C8_missing_binding [OF h, of "\<lambda>b. True" "''w1''" 1 "\<lambda>url. True"] g
  show ?thesis by simp
qed

subsection \<open>C9: balances are never negative\<close>

text \<open>
  Claim C9, as stated, fails in its last part: the non-negativity of the balance is not
  checked before any write is issued. In \<open>receivePayment\<close> the only check is the schema's
  \<open>min: 0\<close> validation inside \<open>business.save()\<close>, which runs after the version increment and
  after the transaction was inserted. With a fixed fee of 200, a credit of gross 100 and a
  balance of 50, the handler has incremented the version and inserted a record with
  \<open>newBalance = -50\<close>, which it then marks failed; only the balance write is refused.
\<close>

theorem C9_writes_before_check_counterexample:
  "map (\<lambda>t. (t_status t, previousBalance t, newBalance t))
     (transactions (step fixedFeeState (CreditWebhook (\<lambda>b. True) scenarioA_request ''w1'' 1))) =
     [(failed, 50, - 50)] \<and>
   map_option version (businesses (step fixedFeeState (CreditWebhook (\<lambda>b. True) scenarioA_request ''w1'' 1)) ''B1'') =
     Some 1 \<and>
   balanceOf (step fixedFeeState (CreditWebhook (\<lambda>b. True) scenarioA_request ''w1'' 1)) ''B1'' = Some 50"
  by (simp add: receivePayment_def receivePayment_async_def receivePayment_credit_def
      receivePayment_charges_def fixedFeeState_def scenarioA_request_def truthy_str_def truthy_num_def
      Transaction_create_def violatesUnique_def Business_save_def findByIdAndUpdate_def js_or_def
      round2_def Math_round_def balanceOf_def Let_def)

text \<open>
  Claim C9, amended. Every event (a credit webhook to \<open>receivePayment\<close>, a payment
  notification to \<open>handlePaymentNotification\<close>, a withdrawal request to \<open>initiatePayment\<close>),
  from any state and under any fee policy, a fixed fee above the gross amount included,
  either leaves every stored balance as it was or sets the balance of one existing
  business to a value that is not negative: the withdrawal checks \<open>balance >= amount\<close>
  before it calls the provider, the credits are refused by the schema validation of
  \<open>business.save()\<close> when the balance would be negative. Hence from a state in which no
  balance is negative, no balance is negative after any run of such events.
\<close>

theorem C9_balance_never_negative:
  "(balanceOf (step s e) = balanceOf s \<or>
    (\<exists>i new. balanceOf s i \<noteq> None \<and> 0 \<le> new \<and> balanceOf (step s e) = (balanceOf s)(i \<mapsto> new))) \<and>
   (nonNegativeBalances s \<longrightarrow> nonNegativeBalances (run s es))"
  using step_write [of s e] run_nonNegative [of s es] by blast

theorem C9_balance_never_negative_witness:
  "nonNegativeBalances fixedFeeState \<and>
   nonNegativeBalances
     (run fixedFeeState
        [CreditWebhook (\<lambda>b. True) scenarioA_request ''w1'' 1,
         Withdrawal payoutCompleted (withdrawRequest ''W-1'' 3000) 2])"
proof -
  have "nonNegativeBalances fixedFeeState"
    by (auto simp add: nonNegativeBalances_def balanceOf_def fixedFeeState_def split: if_splits)
  then show ?thesis
    using C9_balance_never_negative
      [of fixedFeeState _
          "[CreditWebhook (\<lambda>b. True) scenarioA_request ''w1'' 1,
            Withdrawal payoutCompleted (withdrawRequest ''W-1'' 3000) 2]"]
    by blast
qed

subsection \<open>C10: amounts in the gaps between the tiers\<close>



end
